theory Spec2Isabelle
  imports Complex_Main "HOL-Library.Word" "HOL-Library.AList"
begin

unbundle bit_operations_syntax

section \<open>The title-bar colour generator: data model\<close>

text \<open>
  A shallow embedding of \<^verbatim>\<open>color-generator.ts\<close>, \<^verbatim>\<open>types.ts\<close> and the
  \<^verbatim>\<open>resetColors\<close> method of \<^verbatim>\<open>title-bar-manager.ts\<close>.

  Conventions of the model:
  \<^item> A JavaScript \<^verbatim>\<open>number\<close> that holds a colour coordinate is a \<^typ>\<open>real\<close>: the
    arithmetic is the exact arithmetic of the formulas, without the rounding of IEEE
    doubles, and without \<^verbatim>\<open>NaN\<close> or infinities. A number that the code only ever uses
    as an integer (a hash value, an RGB channel after \<^verbatim>\<open>Math.round\<close>) is an \<^typ>\<open>int\<close>.
  \<^item> A seed string is the list of its UTF-16 code units, which is what
    \<^verbatim>\<open>charCodeAt\<close> reads; a colour string is a \<^typ>\<open>string\<close>.
  \<^item> \<^verbatim>\<open>parseInt\<close> yields \<^verbatim>\<open>NaN\<close> on text without digits: the model returns
    \<^term>\<open>None\<close> there.
\<close>

record HSL =
  h :: real
  s :: real
  l :: real

record 'n RGB =
  r :: 'n
  g :: 'n
  b :: 'n

record TitleBarColors =
  activeBackground :: string
  activeForeground :: string
  inactiveBackground :: string
  inactiveForeground :: string
  border :: string

datatype ThemeKind = Dark | Light | HighContrast

type_synonym utf16 = "16 word list"

definition utf16_of :: "string \<Rightarrow> utf16" where
  "utf16_of cs = map of_char cs"

section \<open>Numeric primitives of the language\<close>

text \<open>
  \<^verbatim>\<open>a % b\<close> is the remainder of the division truncated towards zero: its sign is the sign
  of \<^verbatim>\<open>a\<close>. On integers and on reals:
\<close>

definition js_rem :: "int \<Rightarrow> int \<Rightarrow> int" where
  "js_rem a n = sgn a * (\<bar>a\<bar> mod \<bar>n\<bar>)"

definition trunc :: "real \<Rightarrow> int" where
  "trunc x = (if 0 \<le> x then \<lfloor>x\<rfloor> else \<lceil>x\<rceil>)"

definition js_fmod :: "real \<Rightarrow> real \<Rightarrow> real" where
  "js_fmod a n = a - n * of_int (trunc (a / n))"

text \<open>\<^verbatim>\<open>Math.round\<close> rounds to the nearest integer, a half upwards.\<close>

definition Math_round :: "real \<Rightarrow> int" where
  "Math_round x = \<lfloor>x + 1 / 2\<rfloor>"

text \<open>
  \<^verbatim>\<open>x << 5\<close> converts to a signed 32-bit integer, shifts, and reads the result as signed;
  \<^verbatim>\<open>x >>> 0\<close> reads the low 32 bits as unsigned.
\<close>

definition shl5 :: "int \<Rightarrow> int" where
  "shl5 x = sint (push_bit 5 (word_of_int x :: 32 word))"

definition toUint32 :: "int \<Rightarrow> int" where
  "toUint32 x = uint (word_of_int x :: 32 word)"

section \<open>Utilities and hashing\<close>

definition clamp :: "real \<Rightarrow> real \<Rightarrow> real \<Rightarrow> real" where
  "clamp v lo hi = min (max v lo) hi"

text \<open>One round of the loop body \<^verbatim>\<open>hash = ((hash << 5) + hash + input.charCodeAt(i)) >>> 0\<close>.\<close>

definition hashStep :: "int \<Rightarrow> 16 word \<Rightarrow> int" where
  "hashStep hash c = toUint32 (shl5 hash + hash + uint c)"

definition hashStringToHue :: "utf16 \<Rightarrow> int" where
  "hashStringToHue input = js_rem (foldl hashStep 5381 input) 360"

definition hashStringToFloat :: "utf16 \<Rightarrow> int \<Rightarrow> real" where
  "hashStringToFloat input seed =
     of_int (js_rem (foldl hashStep (5381 + seed) input) 10000) / 10000"

section \<open>Colour-space conversions\<close>

text \<open>
  \<^verbatim>\<open>hslToRgb\<close>, line by line. No step of it clamps or checks its argument.
\<close>

definition hslToRgb :: "HSL \<Rightarrow> int RGB" where
  "hslToRgb hsl =
     (let hN = js_fmod (js_fmod (h hsl) 360 + 360) 360;
          sN = s hsl / 100;
          lN = l hsl / 100;
          c = (1 - \<bar>2 * lN - 1\<bar>) * sN;
          x = c * (1 - \<bar>js_fmod (hN / 60) 2 - 1\<bar>);
          m = lN - c / 2;
          (rp, gp, bp) =
            (if hN < 60 then (c, x, 0)
             else if hN < 120 then (x, c, 0)
             else if hN < 180 then (0, c, x)
             else if hN < 240 then (0, x, c)
             else if hN < 300 then (x, 0, c)
             else (c, 0, x))
      in \<lparr>r = Math_round ((rp + m) * 255),
          g = Math_round ((gp + m) * 255),
          b = Math_round ((bp + m) * 255)\<rparr>)"

text \<open>
  \<^verbatim>\<open>n.toString(16)\<close> of an integer: a minus sign for a negative number, then the
  digits of its magnitude, lower case, without leading zeros.
  \<^verbatim>\<open>padStart(2, "0")\<close> fills text shorter than two characters with zeros on the left
  and leaves longer text alone.
\<close>

definition hexDigit :: "nat \<Rightarrow> char" where
  "hexDigit d = ''0123456789abcdef'' ! d"

fun hexDigits :: "nat \<Rightarrow> string" where
  "hexDigits n =
     (if n < 16 then [hexDigit n] else hexDigits (n div 16) @ [hexDigit (n mod 16)])"

declare hexDigits.simps [simp del]

definition toString16 :: "int \<Rightarrow> string" where
  "toString16 n = (if n < 0 then CHR ''-'' # hexDigits (nat (- n)) else hexDigits (nat n))"

definition padStart2 :: "string \<Rightarrow> string" where
  "padStart2 t = replicate (2 - length t) CHR ''0'' @ t"

definition hex :: "int \<Rightarrow> string" where
  "hex n = padStart2 (toString16 n)"

definition rgbToHex :: "int RGB \<Rightarrow> string" where
  "rgbToHex rgb = CHR ''#'' # hex (r rgb) @ hex (g rgb) @ hex (b rgb)"

text \<open>
  \<^verbatim>\<open>parseInt(text, 16)\<close>: leading white space is skipped (here the white space of
  Latin-1: tab, line feed, vertical tab, form feed, carriage return, space, no-break
  space), then one optional sign, then an optional \<^verbatim>\<open>0x\<close> or \<^verbatim>\<open>0X\<close>, then the longest
  run of hexadecimal digits of either case. Without a digit the result is \<^verbatim>\<open>NaN\<close>,
  here \<^term>\<open>None\<close>.
\<close>

definition isWhiteSpace :: "char \<Rightarrow> bool" where
  "isWhiteSpace c = ((of_char c :: nat) \<in> {9, 10, 11, 12, 13, 32, 160})"

definition hexValue :: "char \<Rightarrow> nat option" where
  "hexValue c =
     (let n = (of_char c :: nat) in
      if 48 \<le> n \<and> n \<le> 57 then Some (n - 48)
      else if 97 \<le> n \<and> n \<le> 102 then Some (n - 87)
      else if 65 \<le> n \<and> n \<le> 70 then Some (n - 55)
      else None)"

fun hexPrefix :: "string \<Rightarrow> nat list" where
  "hexPrefix [] = []"
| "hexPrefix (c # cs) = (case hexValue c of None \<Rightarrow> [] | Some d \<Rightarrow> d # hexPrefix cs)"

definition parseInt16 :: "string \<Rightarrow> int option" where
  "parseInt16 str =
     (let t0 = dropWhile isWhiteSpace str;
          sign = (if take 1 t0 = ''-'' then - 1 else 1);
          t1 = (if take 1 t0 = ''-'' \<or> take 1 t0 = ''+'' then drop 1 t0 else t0);
          t2 = (if take 2 t1 = ''0x'' \<or> take 2 t1 = ''0X'' then drop 2 t1 else t1);
          ds = hexPrefix t2
      in if ds = [] then None
         else Some (sign * int (foldl (\<lambda>acc d. 16 * acc + d) 0 ds)))"

text \<open>
  \<^verbatim>\<open>hexToRgb\<close>: one leading \<^verbatim>\<open>#\<close> is removed, then the slices \<^verbatim>\<open>(0,2)\<close>, \<^verbatim>\<open>(2,4)\<close>
  and \<^verbatim>\<open>(4,6)\<close> are parsed. Each channel may be \<^verbatim>\<open>NaN\<close>.
\<close>

definition hexToRgb :: "string \<Rightarrow> int option RGB" where
  "hexToRgb hexStr =
     (let t = (case hexStr of [] \<Rightarrow> [] | c # cs \<Rightarrow> if c = CHR ''#'' then cs else hexStr)
      in \<lparr>r = parseInt16 (take 2 t),
          g = parseInt16 (take 2 (drop 2 t)),
          b = parseInt16 (take 2 (drop 4 t))\<rparr>)"

definition hslToHex :: "HSL \<Rightarrow> string" where
  "hslToHex hsl = rgbToHex (hslToRgb hsl)"

section \<open>Contrast helpers\<close>

text \<open>
  \<^verbatim>\<open>Math.pow(x, 2.4)\<close> is only reached with \<open>x > 0\<close>, where it is the real power
  \<^term>\<open>x powr 2.4\<close>.
\<close>

definition linearize :: "real \<Rightarrow> real" where
  "linearize c =
     (let v = c / 255 in if v \<le> 0.03928 then v / 12.92 else ((v + 0.055) / 1.055) powr 2.4)"

definition relativeLuminance :: "int RGB \<Rightarrow> real" where
  "relativeLuminance rgb =
     0.2126 * linearize (of_int (r rgb)) + 0.7152 * linearize (of_int (g rgb))
       + 0.0722 * linearize (of_int (b rgb))"

definition contrastRatio :: "int RGB \<Rightarrow> int RGB \<Rightarrow> real" where
  "contrastRatio c1 c2 =
     (let la = relativeLuminance c1;
          lb = relativeLuminance c2;
          lighter = max la lb;
          darker = min la lb
      in (lighter + 0.05) / (darker + 0.05))"

definition white :: "int RGB" where
  "white = \<lparr>r = 255, g = 255, b = 255\<rparr>"

definition black :: "int RGB" where
  "black = \<lparr>r = 0, g = 0, b = 0\<rparr>"

text \<open>
  A colour all of whose channels are numbers. When a channel of the parsed background is
  \<^verbatim>\<open>NaN\<close>, its luminance and both contrast ratios are \<^verbatim>\<open>NaN\<close>, the comparison
  \<^verbatim>\<open>>=\<close> is false, and \<^verbatim>\<open>chooseForeground\<close> returns black: the \<^term>\<open>None\<close> branch
  below.
\<close>

definition definedRgb :: "int option RGB \<Rightarrow> int RGB option" where
  "definedRgb p =
     (case (r p, g p, b p) of
        (Some x, Some y, Some z) \<Rightarrow> Some \<lparr>r = x, g = y, b = z\<rparr>
      | _ \<Rightarrow> None)"

definition chooseForeground :: "string \<Rightarrow> string" where
  "chooseForeground backgroundHex =
     (case definedRgb (hexToRgb backgroundHex) of
        None \<Rightarrow> ''#000000''
      | Some bg \<Rightarrow>
          if contrastRatio bg white \<ge> contrastRatio bg black then ''#ffffff'' else ''#000000'')"

text \<open>
  The measurement of the test suite: both colours are parsed with \<^verbatim>\<open>hexToRgb\<close> and
  their contrast ratio is taken.
\<close>

definition hexContrast :: "string \<Rightarrow> string \<Rightarrow> real option" where
  "hexContrast bgHex fgHex =
     (case (definedRgb (hexToRgb bgHex), definedRgb (hexToRgb fgHex)) of
        (Some bg, Some fg) \<Rightarrow> Some (contrastRatio bg fg)
      | _ \<Rightarrow> None)"

section \<open>HSL generation\<close>

text \<open>
  \<^verbatim>\<open>generateAppealingHsl\<close> draws three times from \<^verbatim>\<open>Math.random()\<close>, for the hue, the
  saturation and the lightness in this order; the draws are arguments here.
\<close>

definition generateAppealingHsl :: "ThemeKind \<Rightarrow> real \<Rightarrow> real \<Rightarrow> real \<Rightarrow> HSL" where
  "generateAppealingHsl theme u1 u2 u3 =
     (case theme of
        Light \<Rightarrow> \<lparr>h = u1 * 360, s = 25 + u2 * 60, l = 65 + u3 * 25\<rparr>
      | HighContrast \<Rightarrow> \<lparr>h = u1 * 360, s = 40 + u2 * 50, l = 10 + u3 * 18\<rparr>
      | Dark \<Rightarrow> \<lparr>h = u1 * 360, s = 20 + u2 * 65, l = 12 + u3 * 28\<rparr>)"

definition hslFromHue :: "real \<Rightarrow> ThemeKind \<Rightarrow> HSL" where
  "hslFromHue hue theme =
     (let hh = js_fmod (js_fmod hue 360 + 360) 360;
          hueNorm = hh / 360;
          wave = sin (hueNorm * pi * 2)
      in case theme of
           Light \<Rightarrow> \<lparr>h = hh, s = 35 + wave * 20, l = 72 + wave * 8\<rparr>
         | HighContrast \<Rightarrow> \<lparr>h = hh, s = 55 + wave * 15, l = 16 + wave * 5\<rparr>
         | Dark \<Rightarrow> \<lparr>h = hh, s = 40 + wave * 20, l = 22 + wave * 8\<rparr>)"

section \<open>Derived colours\<close>

definition deriveInactiveHsl :: "HSL \<Rightarrow> ThemeKind \<Rightarrow> HSL" where
  "deriveInactiveHsl hsl theme =
     \<lparr>h = h hsl,
      s = clamp (s hsl * 0.65) 0 100,
      l = clamp (if theme = Light then l hsl + 5 else l hsl - 3) 0 100\<rparr>"

definition deriveInactiveForeground :: "string \<Rightarrow> string" where
  "deriveInactiveForeground activeFg = activeFg @ ''cc''"

definition deriveBorderHsl :: "HSL \<Rightarrow> ThemeKind \<Rightarrow> HSL" where
  "deriveBorderHsl hsl theme =
     \<lparr>h = h hsl,
      s = clamp (s hsl * 0.6) 0 100,
      l = clamp (if theme = Light then l hsl - 12 else l hsl - 6) 0 100\<rparr>"

section \<open>The full title-bar colour set\<close>

definition titleBarColorsFromHsl :: "HSL \<Rightarrow> ThemeKind \<Rightarrow> TitleBarColors" where
  "titleBarColorsFromHsl hsl theme =
     (let activeBg = hslToHex hsl;
          activeFg = chooseForeground activeBg;
          inactiveBg = hslToHex (deriveInactiveHsl hsl theme);
          inactiveFg = deriveInactiveForeground activeFg;
          bord = hslToHex (deriveBorderHsl hsl theme)
      in \<lparr>activeBackground = activeBg, activeForeground = activeFg,
          inactiveBackground = inactiveBg, inactiveForeground = inactiveFg,
          border = bord\<rparr>)"

definition generateTitleBarColors :: "ThemeKind \<Rightarrow> real \<Rightarrow> real \<Rightarrow> real \<Rightarrow> TitleBarColors" where
  "generateTitleBarColors theme u1 u2 u3 =
     titleBarColorsFromHsl (generateAppealingHsl theme u1 u2 u3) theme"

definition generateTitleBarColorsFromHue :: "real \<Rightarrow> ThemeKind \<Rightarrow> TitleBarColors" where
  "generateTitleBarColorsFromHue hue theme = titleBarColorsFromHsl (hslFromHue hue theme) theme"

definition generateTitleBarColorsFromSeed :: "utf16 \<Rightarrow> ThemeKind \<Rightarrow> TitleBarColors" where
  "generateTitleBarColorsFromSeed seed theme =
     (let hue = hashStringToHue seed;
          sFloat = hashStringToFloat seed 1;
          lFloat = hashStringToFloat seed 2;
          (sat, lig) =
            (case theme of
               Light \<Rightarrow> (25 + sFloat * 60, 65 + lFloat * 25)
             | HighContrast \<Rightarrow> (40 + sFloat * 50, 10 + lFloat * 18)
             | Dark \<Rightarrow> (20 + sFloat * 65, 12 + lFloat * 28))
      in titleBarColorsFromHsl \<lparr>h = of_int hue, s = sat, l = lig\<rparr> theme)"

section \<open>The settings store\<close>

text \<open>
  \<^verbatim>\<open>TitleBarManager.resetColors\<close>. The host is a record of what the method reads and
  writes: the workspace folders (\<^verbatim>\<open>undefined\<close> or a list), the value of the setting
  \<^verbatim>\<open>workbench.colorCustomizations\<close> (\<^verbatim>\<open>undefined\<close> or an object, here the list of its
  key-value pairs), and the colour set remembered under the state key. Reading the setting
  returns what was last written; a write that the host rejects is not modelled.
\<close>

definition TITLE_BAR_KEYS :: "string list" where
  "TITLE_BAR_KEYS =
     [''titleBar.activeBackground'', ''titleBar.activeForeground'',
      ''titleBar.inactiveBackground'', ''titleBar.inactiveForeground'',
      ''titleBar.border'']"

record 'v Host =
  workspaceFolders :: "string list option"
  colorCustomizations :: "(string \<times> 'v) list option"
  currentColors :: "TitleBarColors option"

definition hasWorkspace :: "'v Host \<Rightarrow> bool" where
  "hasWorkspace st =
     (case workspaceFolders st of None \<Rightarrow> False | Some folders \<Rightarrow> length folders > 0)"

definition resetColors :: "'v Host \<Rightarrow> 'v Host" where
  "resetColors st =
     (if \<not> hasWorkspace st then st
      else
        let current = (case colorCustomizations st of None \<Rightarrow> [] | Some m \<Rightarrow> m);
            updated = foldl (\<lambda>m key. AList.delete key m) current TITLE_BAR_KEYS;
            newValue = (if length (map fst updated) = 0 then None else Some updated)
        in st\<lparr>colorCustomizations := newValue, currentColors := None\<rparr>)"

section \<open>Vocabulary of the specification\<close>

text \<open>An RGB colour of the data model: every channel an integer from 0 to 255.\<close>

definition inByte :: "int RGB \<Rightarrow> bool" where
  "inByte rgb =
     (0 \<le> r rgb \<and> r rgb \<le> 255 \<and> 0 \<le> g rgb \<and> g rgb \<le> 255 \<and> 0 \<le> b rgb \<and> b rgb \<le> 255)"

text \<open>
  The hex patterns of the test suite: \<^verbatim>\<open>#\<close> and six, or eight, lower-case hexadecimal
  digits.
\<close>

definition isHexDigit :: "char \<Rightarrow> bool" where
  "isHexDigit c =
     (let n = (of_char c :: nat) in (48 \<le> n \<and> n \<le> 57) \<or> (97 \<le> n \<and> n \<le> 102))"

definition isHex6 :: "string \<Rightarrow> bool" where
  "isHex6 str =
     (case str of
        [] \<Rightarrow> False
      | c # ds \<Rightarrow> c = CHR ''#'' \<and> length ds = 6 \<and> list_all isHexDigit ds)"

definition isHex8 :: "string \<Rightarrow> bool" where
  "isHex8 str =
     (case str of
        [] \<Rightarrow> False
      | c # ds \<Rightarrow> c = CHR ''#'' \<and> length ds = 8 \<and> list_all isHexDigit ds)"

text \<open>
  The theme table of the specification (saturation range, lightness range), and the
  linear map of a unit float onto a range.
\<close>

definition spec_saturationRange :: "ThemeKind \<Rightarrow> real \<times> real" where
  "spec_saturationRange theme =
     (case theme of Dark \<Rightarrow> (20, 85) | Light \<Rightarrow> (25, 85) | HighContrast \<Rightarrow> (40, 90))"

definition spec_lightnessRange :: "ThemeKind \<Rightarrow> real \<times> real" where
  "spec_lightnessRange theme =
     (case theme of Dark \<Rightarrow> (12, 40) | Light \<Rightarrow> (65, 90) | HighContrast \<Rightarrow> (10, 28))"

definition spec_mapLinear :: "real \<times> real \<Rightarrow> real \<Rightarrow> real" where
  "spec_mapLinear bounds u = fst bounds + u * (snd bounds - fst bounds)"

definition inTunedRange :: "ThemeKind \<Rightarrow> HSL \<Rightarrow> bool" where
  "inTunedRange theme hsl =
     (fst (spec_saturationRange theme) \<le> s hsl \<and> s hsl \<le> snd (spec_saturationRange theme)
      \<and> fst (spec_lightnessRange theme) \<le> l hsl \<and> l hsl \<le> snd (spec_lightnessRange theme))"

text \<open>
  Seeded generation in the words of the specification: the hue from
  \<^verbatim>\<open>hashStringToHue\<close>, saturation and lightness from \<^verbatim>\<open>hashStringToFloat\<close> with the
  offsets 1 and 2, each mapped linearly onto the range of the theme.
\<close>

definition spec_seededHsl :: "utf16 \<Rightarrow> ThemeKind \<Rightarrow> HSL" where
  "spec_seededHsl seed theme =
     \<lparr>h = of_int (hashStringToHue seed),
      s = spec_mapLinear (spec_saturationRange theme) (hashStringToFloat seed 1),
      l = spec_mapLinear (spec_lightnessRange theme) (hashStringToFloat seed 2)\<rparr>"

section \<open>The seeds of the test suite\<close>

text \<open>
  The seeds of the test \<^verbatim>\<open>produces visually distinct colors across 20 workspace paths\<close>:
  \<^verbatim>\<open>Array.from({ length: 20 }, (_, i) => `/Users/dev/project-${i}`)\<close>. The template
  literal writes the index in decimal.
\<close>

definition decimalDigit :: "nat \<Rightarrow> char" where
  "decimalDigit d = ''0123456789'' ! d"

fun decimalDigits :: "nat \<Rightarrow> string" where
  "decimalDigits n =
     (if n < 10 then [decimalDigit n]
      else decimalDigits (n div 10) @ [decimalDigit (n mod 10)])"

declare decimalDigits.simps [simp del]

definition testPaths :: "utf16 list" where
  "testPaths = map (\<lambda>i. utf16_of (''/Users/dev/project-'' @ decimalDigits i)) [0..<20]"

definition testBackgrounds :: "string list" where
  "testBackgrounds =
     map (\<lambda>p. activeBackground (generateTitleBarColorsFromSeed p Dark)) testPaths"

section \<open>Hashing: properties\<close>

lemma toUint32_range: "0 \<le> toUint32 x \<and> toUint32 x < 2 ^ 32"
proof -
  have "uint (word_of_int x :: 32 word) < 2 ^ LENGTH(32)"
    by (rule uint_lt2p)
  then show ?thesis
    by (simp add: toUint32_def)
qed

lemma hashStep_range: "0 \<le> hashStep x c \<and> hashStep x c < 2 ^ 32"
  unfolding hashStep_def by (rule toUint32_range)

lemma hashStep_eq: "hashStep x c = (33 * x + uint c) mod 2 ^ 32"
proof -
  have w: "(word_of_int (shl5 x + x + uint c) :: 32 word) = word_of_int (33 * x + uint c)"
    by (simp add: shl5_def push_bit_eq_mult)
  show ?thesis
    unfolding hashStep_def toUint32_def w uint_word_of_int by simp
qed

lemma foldl_hashStep_nonneg:
  "0 \<le> x \<Longrightarrow> 0 \<le> foldl hashStep x cs"
  by (induction cs arbitrary: x) (simp_all add: hashStep_range)

lemma foldl_hashStep_nonempty:
  "cs \<noteq> [] \<Longrightarrow> 0 \<le> foldl hashStep x cs"
  by (cases cs) (simp_all add: foldl_hashStep_nonneg hashStep_range)

lemma js_rem_nonneg:
  "0 \<le> a \<Longrightarrow> 0 < n \<Longrightarrow> js_rem a n = a mod n"
  by (cases "a = 0") (simp_all add: js_rem_def)

lemma hashStringToHue_range:
  "0 \<le> hashStringToHue input \<and> hashStringToHue input < 360"
proof -
  have "0 \<le> foldl hashStep 5381 input"
    by (rule foldl_hashStep_nonneg) simp
  then show ?thesis
    by (simp add: hashStringToHue_def js_rem_nonneg)
qed

lemma hashStringToFloat_range:
  assumes "input \<noteq> [] \<or> - 5381 \<le> seed"
  shows "0 \<le> hashStringToFloat input seed \<and> hashStringToFloat input seed < 1"
proof -
  have "0 \<le> foldl hashStep (5381 + seed) input"
    using assms foldl_hashStep_nonempty foldl_hashStep_nonneg by fastforce
  then have e: "js_rem (foldl hashStep (5381 + seed) input) 10000
      = foldl hashStep (5381 + seed) input mod 10000"
    by (simp add: js_rem_nonneg)
  have "0 \<le> foldl hashStep (5381 + seed) input mod 10000"
    and "foldl hashStep (5381 + seed) input mod 10000 < 10000"
    by simp_all
  then show ?thesis
    unfolding hashStringToFloat_def e by simp
qed

section \<open>Hue normalisation and rounding\<close>

lemma js_fmod_nonneg:
  assumes "0 < n" "0 \<le> a"
  shows "0 \<le> js_fmod a n \<and> js_fmod a n < n"
proof -
  have q: "0 \<le> a / n" using assms by simp
  have lo: "of_int \<lfloor>a / n\<rfloor> * n \<le> a"
    using assms(1) by (rule floor_divide_lower)
  have hi: "a < (of_int \<lfloor>a / n\<rfloor> + 1) * n"
    using assms(1) by (rule floor_divide_upper)
  have e: "js_fmod a n = a - n * of_int \<lfloor>a / n\<rfloor>"
    using q by (simp add: js_fmod_def trunc_def)
  show ?thesis
    unfolding e using lo hi by (simp add: algebra_simps)
qed

lemma js_fmod_neg:
  assumes "0 < n" "a < 0"
  shows "- n < js_fmod a n \<and> js_fmod a n \<le> 0"
proof -
  have q: "\<not> 0 \<le> a / n" using assms by (simp add: divide_less_0_iff not_le)
  have lo: "(of_int \<lceil>a / n\<rceil> - 1) * n < a"
    using assms(1) by (rule ceiling_divide_lower)
  have hi: "a \<le> of_int \<lceil>a / n\<rceil> * n"
    using assms(1) by (rule ceiling_divide_upper)
  have e: "js_fmod a n = a - n * of_int \<lceil>a / n\<rceil>"
    using q by (simp add: js_fmod_def trunc_def)
  show ?thesis
    unfolding e using lo hi by (simp add: algebra_simps)
qed

lemma js_fmod_bounds:
  assumes "0 < n"
  shows "- n < js_fmod a n \<and> js_fmod a n < n"
proof (cases "0 \<le> a")
  case True
  then show ?thesis using js_fmod_nonneg [OF assms True] assms by linarith
next
  case False
  then have "a < 0" by simp
  then show ?thesis using js_fmod_neg [OF assms] assms by fastforce
qed

lemma hue_normalized:
  "0 \<le> js_fmod (js_fmod x 360 + 360) 360 \<and> js_fmod (js_fmod x 360 + 360) 360 < 360"
proof -
  have "- 360 < js_fmod x 360" using js_fmod_bounds [of 360 x] by simp
  then have "0 \<le> js_fmod x 360 + 360" by simp
  then show ?thesis by (intro js_fmod_nonneg) simp_all
qed

lemma Math_round_range:
  assumes "0 \<le> x" "x \<le> 255"
  shows "0 \<le> Math_round x \<and> Math_round x \<le> 255"
proof -
  have "0 \<le> \<lfloor>x + 1 / 2\<rfloor>" using assms by simp
  moreover have "x + 1 / 2 < 256" using assms by simp
  then have "\<lfloor>x + 1 / 2\<rfloor> < 256" by (simp add: floor_less_iff)
  ultimately show ?thesis by (simp add: Math_round_def)
qed

section \<open>Channels of \<^verbatim>\<open>hslToRgb\<close>\<close>

lemma chroma_bounds:
  fixes sN lN k :: real
  assumes "0 \<le> sN" "sN \<le> 1" "0 \<le> lN" "lN \<le> 1" "0 \<le> k" "k \<le> 1"
  defines "c \<equiv> (1 - \<bar>2 * lN - 1\<bar>) * sN"
  shows "0 \<le> c * k + (lN - c / 2) \<and> c * k + (lN - c / 2) \<le> 1"
proof -
  have f0: "0 \<le> 1 - \<bar>2 * lN - 1\<bar>" using assms by linarith
  have c0: "0 \<le> c" unfolding c_def using f0 assms by simp
  have "c \<le> (1 - \<bar>2 * lN - 1\<bar>) * 1"
    unfolding c_def using f0 assms by (intro mult_left_mono) simp_all
  then have c1: "c \<le> 1 - \<bar>2 * lN - 1\<bar>" by simp
  have ck0: "0 \<le> c * k" using c0 assms by simp
  have "c * k \<le> c * 1" using c0 assms by (intro mult_left_mono) simp_all
  then have ck1: "c * k \<le> c" by simp
  have "0 \<le> lN - c / 2" using c1 by linarith
  moreover have "c + (lN - c / 2) \<le> 1" using c1 by linarith
  ultimately show ?thesis using ck0 ck1 by linarith
qed

lemma sector_factor:
  assumes "0 \<le> hN"
  shows "0 \<le> 1 - \<bar>js_fmod (hN / 60) 2 - 1\<bar> \<and> 1 - \<bar>js_fmod (hN / 60) 2 - 1\<bar> \<le> 1"
proof -
  have "0 \<le> hN / 60" using assms by simp
  then have "0 \<le> js_fmod (hN / 60) 2 \<and> js_fmod (hN / 60) 2 < 2"
    by (intro js_fmod_nonneg) simp_all
  then show ?thesis by linarith
qed

lemma hslToRgb_inByte:
  assumes "0 \<le> s hsl" "s hsl \<le> 100" "0 \<le> l hsl" "l hsl \<le> 100"
  shows "inByte (hslToRgb hsl)"
proof -
  define hN where "hN = js_fmod (js_fmod (h hsl) 360 + 360) 360"
  define k where "k = 1 - \<bar>js_fmod (hN / 60) 2 - 1\<bar>"
  define c where "c = (1 - \<bar>2 * (l hsl / 100) - 1\<bar>) * (s hsl / 100)"
  define m where "m = l hsl / 100 - c / 2"
  have hN0: "0 \<le> hN" unfolding hN_def using hue_normalized by simp
  have k01: "0 \<le> k \<and> k \<le> 1" unfolding k_def using sector_factor [OF hN0] .
  have sl: "0 \<le> s hsl / 100" "s hsl / 100 \<le> 1" "0 \<le> l hsl / 100" "l hsl / 100 \<le> 1"
    using assms by simp_all
  have bx: "0 \<le> c * k + m \<and> c * k + m \<le> 1"
    unfolding c_def m_def using chroma_bounds [OF sl, of k] k01 by simp
  have bc: "0 \<le> c + m \<and> c + m \<le> 1"
    unfolding c_def m_def using chroma_bounds [OF sl, of 1] by simp
  have bz: "0 \<le> 0 + m \<and> 0 + m \<le> 1"
    unfolding c_def m_def using chroma_bounds [OF sl, of 0] by simp
  have rx: "0 \<le> Math_round ((c * k + m) * 255) \<and> Math_round ((c * k + m) * 255) \<le> 255"
    using bx by (intro Math_round_range) simp_all
  have rc: "0 \<le> Math_round ((c + m) * 255) \<and> Math_round ((c + m) * 255) \<le> 255"
    using bc by (intro Math_round_range) simp_all
  have rz: "0 \<le> Math_round ((0 + m) * 255) \<and> Math_round ((0 + m) * 255) \<le> 255"
    using bz by (intro Math_round_range) simp_all
  have e: "hslToRgb hsl =
     (if hN < 60 then \<lparr>r = Math_round ((c + m) * 255), g = Math_round ((c * k + m) * 255), b = Math_round ((0 + m) * 255)\<rparr>
      else if hN < 120 then \<lparr>r = Math_round ((c * k + m) * 255), g = Math_round ((c + m) * 255), b = Math_round ((0 + m) * 255)\<rparr>
      else if hN < 180 then \<lparr>r = Math_round ((0 + m) * 255), g = Math_round ((c + m) * 255), b = Math_round ((c * k + m) * 255)\<rparr>
      else if hN < 240 then \<lparr>r = Math_round ((0 + m) * 255), g = Math_round ((c * k + m) * 255), b = Math_round ((c + m) * 255)\<rparr>
      else if hN < 300 then \<lparr>r = Math_round ((c * k + m) * 255), g = Math_round ((0 + m) * 255), b = Math_round ((c + m) * 255)\<rparr>
      else \<lparr>r = Math_round ((c + m) * 255), g = Math_round ((0 + m) * 255), b = Math_round ((c * k + m) * 255)\<rparr>)"
    unfolding hslToRgb_def Let_def hN_def k_def c_def m_def by simp
  show ?thesis
    unfolding e inByte_def using rx rc rz by simp
qed

section \<open>Formatting and parsing a channel\<close>

lemma nibble_cases:
  "d < 16 \<Longrightarrow> d = 0 \<or> d = 1 \<or> d = 2 \<or> d = 3 \<or> d = 4 \<or> d = 5 \<or> d = 6 \<or> d = 7
     \<or> d = 8 \<or> d = 9 \<or> d = 10 \<or> d = 11 \<or> d = 12 \<or> d = 13 \<or> d = 14 \<or> d = (15::nat)"
  by arith

lemma hexDigit_props:
  assumes "d < 16"
  shows "hexValue (hexDigit d) = Some d"
    and "\<not> isWhiteSpace (hexDigit d)"
    and "hexDigit d \<noteq> CHR ''-''" and "hexDigit d \<noteq> CHR ''+''"
    and "hexDigit d \<noteq> CHR ''x''" and "hexDigit d \<noteq> CHR ''X''"
  using nibble_cases [OF assms]
  by (elim disjE; simp add: hexDigit_def hexValue_def isWhiteSpace_def)+

lemma parseInt16_two_digits:
  assumes "a < 16" "d < 16"
  shows "parseInt16 [hexDigit a, hexDigit d] = Some (int (16 * a + d))"
  using hexDigit_props [OF assms(1)] hexDigit_props [OF assms(2)]
  by (simp add: parseInt16_def Let_def)

lemma hexDigits_byte:
  assumes "n < 256"
  shows "hexDigits n = (if n < 16 then [hexDigit n] else [hexDigit (n div 16), hexDigit (n mod 16)])"
proof (cases "n < 16")
  case True
  then show ?thesis by (simp add: hexDigits.simps [of n])
next
  case False
  have "n div 16 < 16" using assms by simp
  then show ?thesis using False
    by (simp add: hexDigits.simps [of n] hexDigits.simps [of "n div 16"])
qed

lemma hex_byte:
  assumes "0 \<le> n" "n \<le> 255"
  shows "hex n = [hexDigit (nat n div 16), hexDigit (nat n mod 16)]"
proof -
  have n: "nat n < 256" using assms by simp
  have z: "hexDigit 0 = CHR ''0''" by (simp add: hexDigit_def)
  show ?thesis
    using assms hexDigits_byte [OF n]
    by (simp add: hex_def padStart2_def toString16_def z)
qed

lemma parseInt16_hex_byte:
  assumes "0 \<le> n" "n \<le> 255"
  shows "parseInt16 (hex n) = Some n"
proof -
  have "nat n div 16 < 16" "nat n mod 16 < 16" using assms by simp_all
  then have "parseInt16 (hex n) = Some (int (16 * (nat n div 16) + nat n mod 16))"
    unfolding hex_byte [OF assms] by (rule parseInt16_two_digits)
  also have "16 * (nat n div 16) + nat n mod 16 = nat n" by simp
  finally show ?thesis using assms by simp
qed

lemma hexToRgb_rgbToHex:
  assumes "inByte rgb"
  shows "hexToRgb (rgbToHex rgb) = \<lparr>r = Some (r rgb), g = Some (g rgb), b = Some (b rgb)\<rparr>"
proof -
  have br: "0 \<le> r rgb" "r rgb \<le> 255" and bg: "0 \<le> g rgb" "g rgb \<le> 255"
    and bb: "0 \<le> b rgb" "b rgb \<le> 255"
    using assms by (simp_all add: inByte_def)
  have lr: "length (hex (r rgb)) = 2" and lg: "length (hex (g rgb)) = 2"
    by (simp_all add: hex_byte br bg)
  have "hexToRgb (rgbToHex rgb) =
      \<lparr>r = parseInt16 (hex (r rgb)), g = parseInt16 (hex (g rgb)), b = parseInt16 (hex (b rgb))\<rparr>"
    by (simp add: hexToRgb_def rgbToHex_def hex_byte br bg bb)
  then show ?thesis
    by (simp add: parseInt16_hex_byte br bg bb)
qed

lemma definedRgb_rgbToHex:
  assumes "inByte rgb"
  shows "definedRgb (hexToRgb (rgbToHex rgb)) = Some rgb"
  by (simp add: hexToRgb_rgbToHex [OF assms] definedRgb_def)

section \<open>Luminance and contrast\<close>

lemma linearize_nonneg:
  assumes "0 \<le> c"
  shows "0 \<le> linearize c"
  using assms by (simp add: linearize_def Let_def)

lemma relativeLuminance_nonneg:
  assumes "inByte rgb"
  shows "0 \<le> relativeLuminance rgb"
proof -
  have "0 \<le> linearize (of_int (r rgb))" "0 \<le> linearize (of_int (g rgb))"
    "0 \<le> linearize (of_int (b rgb))"
    using assms by (simp_all add: inByte_def linearize_nonneg)
  then show ?thesis by (simp add: relativeLuminance_def)
qed

lemma relativeLuminance_white: "relativeLuminance white = 1"
  by (simp add: relativeLuminance_def white_def linearize_def)

lemma relativeLuminance_black: "relativeLuminance black = 0"
  by (simp add: relativeLuminance_def black_def linearize_def)

lemma contrast_white_or_black:
  fixes lum :: real
  assumes "0 \<le> lum"
  shows "4.5 \<le> max ((max lum 1 + 0.05) / (min lum 1 + 0.05)) ((max lum 0 + 0.05) / (min lum 0 + 0.05))"
proof (cases "lum < 0.175")
  case True
  then have e: "(max lum 1 + 0.05) / (min lum 1 + 0.05) = 1.05 / (lum + 0.05)"
    by (simp add: max_def min_def)
  have "4.5 \<le> 1.05 / (lum + 0.05)"
    using True assms by (simp add: le_divide_eq)
  then have "4.5 \<le> (max lum 1 + 0.05) / (min lum 1 + 0.05)"
    unfolding e .
  then show ?thesis by (rule max.coboundedI1)
next
  case False
  have e: "(max lum 0 + 0.05) / (min lum 0 + 0.05) = (lum + 0.05) / 0.05"
    using assms by (simp add: max_def min_def)
  have "4.5 \<le> (lum + 0.05) / 0.05"
    using False by simp
  then have "4.5 \<le> (max lum 0 + 0.05) / (min lum 0 + 0.05)"
    unfolding e .
  then show ?thesis by (rule max.coboundedI2)
qed

lemma best_contrast:
  assumes "inByte rgb"
  shows "4.5 \<le> max (contrastRatio rgb white) (contrastRatio rgb black)"
  using contrast_white_or_black [OF relativeLuminance_nonneg [OF assms]]
  by (simp add: contrastRatio_def Let_def relativeLuminance_white relativeLuminance_black)

lemma parsed_white: "definedRgb (hexToRgb ''#ffffff'') = Some white"
  by (simp add: hexToRgb_def parseInt16_def definedRgb_def white_def hexValue_def
      isWhiteSpace_def Let_def)

lemma parsed_black: "definedRgb (hexToRgb ''#000000'') = Some black"
  by (simp add: hexToRgb_def parseInt16_def definedRgb_def black_def hexValue_def
      isWhiteSpace_def Let_def)

lemma chooseForeground_rgbToHex:
  assumes "inByte rgb"
  shows "chooseForeground (rgbToHex rgb) =
    (if contrastRatio rgb white \<ge> contrastRatio rgb black then ''#ffffff'' else ''#000000'')"
  by (simp add: chooseForeground_def definedRgb_rgbToHex [OF assms])

lemma chosen_contrast:
  assumes "inByte rgb"
  shows "\<exists>fg. definedRgb (hexToRgb (chooseForeground (rgbToHex rgb))) = Some fg
           \<and> 4.5 \<le> contrastRatio rgb fg"
proof (cases "contrastRatio rgb white \<ge> contrastRatio rgb black")
  case True
  then have "4.5 \<le> contrastRatio rgb white"
    using best_contrast [OF assms] by (simp add: max_def split: if_splits)
  then show ?thesis
    using True by (simp add: chooseForeground_rgbToHex [OF assms] parsed_white)
next
  case False
  then have "4.5 \<le> contrastRatio rgb black"
    using best_contrast [OF assms] by (simp add: max_def split: if_splits)
  then show ?thesis
    using False by (simp add: chooseForeground_rgbToHex [OF assms] parsed_black)
qed

section \<open>Foreground selection and the derived strings\<close>

lemma chooseForeground_cases:
  "chooseForeground bgHex = ''#ffffff'' \<or> chooseForeground bgHex = ''#000000''"
  by (simp add: chooseForeground_def split: option.split)

lemma isHex8_suffix_cc:
  assumes "isHex6 str"
  shows "isHex8 (str @ ''cc'')"
  using assms
  by (cases str) (simp_all add: isHex6_def isHex8_def isHexDigit_def)

lemma isHex6_white: "isHex6 ''#ffffff''"
  by (simp add: isHex6_def isHexDigit_def)

lemma isHex6_black: "isHex6 ''#000000''"
  by (simp add: isHex6_def isHexDigit_def)

lemma inTunedRange_percent:
  assumes "inTunedRange theme hsl"
  shows "0 \<le> s hsl \<and> s hsl \<le> 100 \<and> 0 \<le> l hsl \<and> l hsl \<le> 100"
  using assms
  by (cases theme) (simp_all add: inTunedRange_def spec_saturationRange_def spec_lightnessRange_def)

lemma rgbToHex_inj:
  assumes "inByte c1" "inByte c2" "rgbToHex c1 = rgbToHex c2"
  shows "c1 = c2"
proof -
  have "Some c1 = definedRgb (hexToRgb (rgbToHex c1))"
    by (simp add: definedRgb_rgbToHex [OF assms(1)])
  also have "\<dots> = Some c2"
    unfolding assms(3) by (simp add: definedRgb_rgbToHex [OF assms(2)])
  finally show ?thesis by simp
qed

lemma activeBackground_eq: "activeBackground (titleBarColorsFromHsl hsl theme) = hslToHex hsl"
  by (simp add: titleBarColorsFromHsl_def Let_def)

section \<open>Seeded generation at concrete seeds\<close>

lemma alpha_hashes:
  "hashStringToHue (utf16_of ''project-alpha'') = 343"
  "hashStringToFloat (utf16_of ''project-alpha'') 1 = 8384 / 10000"
  "hashStringToFloat (utf16_of ''project-alpha'') 2 = 3185 / 10000"
  by (simp_all add: hashStringToHue_def hashStringToFloat_def utf16_of_def hashStep_eq js_rem_def)

lemma beta_hashes:
  "hashStringToHue (utf16_of ''project-beta'') = 53"
  "hashStringToFloat (utf16_of ''project-beta'') 1 = 6470 / 10000"
  "hashStringToFloat (utf16_of ''project-beta'') 2 = 4887 / 10000"
  by (simp_all add: hashStringToHue_def hashStringToFloat_def utf16_of_def hashStep_eq js_rem_def)

lemmas eval_hslToHex = hslToHex_def rgbToHex_def hex_def padStart2_def toString16_def
  hexDigits.simps hexDigit_def hslToRgb_def js_fmod_def trunc_def Math_round_def Let_def

lemma alpha_background:
  "activeBackground (generateTitleBarColorsFromSeed (utf16_of ''project-alpha'') Dark) = ''#5d0e24''"
  unfolding generateTitleBarColorsFromSeed_def alpha_hashes
  by (simp add: activeBackground_eq eval_hslToHex)

lemma beta_background:
  "activeBackground (generateTitleBarColorsFromSeed (utf16_of ''project-beta'') Dark) = ''#6a6119''"
  unfolding generateTitleBarColorsFromSeed_def beta_hashes
  by (simp add: activeBackground_eq eval_hslToHex)

lemma ab_hashes:
  "hashStringToHue (utf16_of ''ab'') = hashStringToHue (utf16_of ''bA'')"
  "hashStringToFloat (utf16_of ''ab'') 1 = hashStringToFloat (utf16_of ''bA'') 1"
  "hashStringToFloat (utf16_of ''ab'') 2 = hashStringToFloat (utf16_of ''bA'') 2"
  by (simp_all add: hashStringToHue_def hashStringToFloat_def utf16_of_def hashStep_eq js_rem_def)

text \<open>The twenty workspace paths of the test suite, one by one.\<close>

lemma testPaths_eq:
  "testPaths = map utf16_of
     [''/Users/dev/project-0'', ''/Users/dev/project-1'', ''/Users/dev/project-2'',
      ''/Users/dev/project-3'', ''/Users/dev/project-4'', ''/Users/dev/project-5'',
      ''/Users/dev/project-6'', ''/Users/dev/project-7'', ''/Users/dev/project-8'',
      ''/Users/dev/project-9'', ''/Users/dev/project-10'', ''/Users/dev/project-11'',
      ''/Users/dev/project-12'', ''/Users/dev/project-13'', ''/Users/dev/project-14'',
      ''/Users/dev/project-15'', ''/Users/dev/project-16'', ''/Users/dev/project-17'',
      ''/Users/dev/project-18'', ''/Users/dev/project-19'']"
  by (simp add: testPaths_def upt_rec decimalDigits.simps decimalDigit_def)

lemma seeded_dark_background:
  assumes "hashStringToHue seed = hue" "hashStringToFloat seed 1 = sF" "hashStringToFloat seed 2 = lF"
  shows "activeBackground (generateTitleBarColorsFromSeed seed Dark)
     = hslToHex \<lparr>h = of_int hue, s = 20 + sF * 65, l = 12 + lF * 28\<rparr>"
  using assms by (simp add: generateTitleBarColorsFromSeed_def Let_def activeBackground_eq)

lemmas eval_hash = hashStringToHue_def hashStringToFloat_def utf16_of_def hashStep_eq js_rem_def

lemma path_0:
  "activeBackground (generateTitleBarColorsFromSeed (utf16_of ''/Users/dev/project-0'') Dark) = ''#338612''"
proof -
  have a: "hashStringToHue (utf16_of ''/Users/dev/project-0'') = 103"
    "hashStringToFloat (utf16_of ''/Users/dev/project-0'') 1 = 8600 / 10000"
    "hashStringToFloat (utf16_of ''/Users/dev/project-0'') 2 = 6361 / 10000"
    by (simp_all add: eval_hash)
  show ?thesis
    unfolding seeded_dark_background [OF a] by (simp add: eval_hslToHex)
qed

lemma path_1:
  "activeBackground (generateTitleBarColorsFromSeed (utf16_of ''/Users/dev/project-1'') Dark) = ''#318612''"
proof -
  have a: "hashStringToHue (utf16_of ''/Users/dev/project-1'') = 104"
    "hashStringToFloat (utf16_of ''/Users/dev/project-1'') 1 = 8601 / 10000"
    "hashStringToFloat (utf16_of ''/Users/dev/project-1'') 2 = 6362 / 10000"
    by (simp_all add: eval_hash)
  show ?thesis
    unfolding seeded_dark_background [OF a] by (simp add: eval_hslToHex)
qed

lemma path_2:
  "activeBackground (generateTitleBarColorsFromSeed (utf16_of ''/Users/dev/project-2'') Dark) = ''#2f8612''"
proof -
  have a: "hashStringToHue (utf16_of ''/Users/dev/project-2'') = 105"
    "hashStringToFloat (utf16_of ''/Users/dev/project-2'') 1 = 8602 / 10000"
    "hashStringToFloat (utf16_of ''/Users/dev/project-2'') 2 = 6363 / 10000"
    by (simp_all add: eval_hash)
  show ?thesis
    unfolding seeded_dark_background [OF a] by (simp add: eval_hslToHex)
qed

lemma path_3:
  "activeBackground (generateTitleBarColorsFromSeed (utf16_of ''/Users/dev/project-3'') Dark) = ''#2d8612''"
proof -
  have a: "hashStringToHue (utf16_of ''/Users/dev/project-3'') = 106"
    "hashStringToFloat (utf16_of ''/Users/dev/project-3'') 1 = 8603 / 10000"
    "hashStringToFloat (utf16_of ''/Users/dev/project-3'') 2 = 6364 / 10000"
    by (simp_all add: eval_hash)
  show ?thesis
    unfolding seeded_dark_background [OF a] by (simp add: eval_hslToHex)
qed

lemma path_4:
  "activeBackground (generateTitleBarColorsFromSeed (utf16_of ''/Users/dev/project-4'') Dark) = ''#2b8612''"
proof -
  have a: "hashStringToHue (utf16_of ''/Users/dev/project-4'') = 107"
    "hashStringToFloat (utf16_of ''/Users/dev/project-4'') 1 = 8604 / 10000"
    "hashStringToFloat (utf16_of ''/Users/dev/project-4'') 2 = 6365 / 10000"
    by (simp_all add: eval_hash)
  show ?thesis
    unfolding seeded_dark_background [OF a] by (simp add: eval_hslToHex)
qed

lemma path_5:
  "activeBackground (generateTitleBarColorsFromSeed (utf16_of ''/Users/dev/project-5'') Dark) = ''#298612''"
proof -
  have a: "hashStringToHue (utf16_of ''/Users/dev/project-5'') = 108"
    "hashStringToFloat (utf16_of ''/Users/dev/project-5'') 1 = 8605 / 10000"
    "hashStringToFloat (utf16_of ''/Users/dev/project-5'') 2 = 6366 / 10000"
    by (simp_all add: eval_hash)
  show ?thesis
    unfolding seeded_dark_background [OF a] by (simp add: eval_hslToHex)
qed

lemma path_6:
  "activeBackground (generateTitleBarColorsFromSeed (utf16_of ''/Users/dev/project-6'') Dark) = ''#278612''"
proof -
  have a: "hashStringToHue (utf16_of ''/Users/dev/project-6'') = 109"
    "hashStringToFloat (utf16_of ''/Users/dev/project-6'') 1 = 8606 / 10000"
    "hashStringToFloat (utf16_of ''/Users/dev/project-6'') 2 = 6367 / 10000"
    by (simp_all add: eval_hash)
  show ?thesis
    unfolding seeded_dark_background [OF a] by (simp add: eval_hslToHex)
qed

lemma path_7:
  "activeBackground (generateTitleBarColorsFromSeed (utf16_of ''/Users/dev/project-7'') Dark) = ''#268612''"
proof -
  have a: "hashStringToHue (utf16_of ''/Users/dev/project-7'') = 110"
    "hashStringToFloat (utf16_of ''/Users/dev/project-7'') 1 = 8607 / 10000"
    "hashStringToFloat (utf16_of ''/Users/dev/project-7'') 2 = 6368 / 10000"
    by (simp_all add: eval_hash)
  show ?thesis
    unfolding seeded_dark_background [OF a] by (simp add: eval_hslToHex)
qed

lemma path_8:
  "activeBackground (generateTitleBarColorsFromSeed (utf16_of ''/Users/dev/project-8'') Dark) = ''#248612''"
proof -
  have a: "hashStringToHue (utf16_of ''/Users/dev/project-8'') = 111"
    "hashStringToFloat (utf16_of ''/Users/dev/project-8'') 1 = 8608 / 10000"
    "hashStringToFloat (utf16_of ''/Users/dev/project-8'') 2 = 6369 / 10000"
    by (simp_all add: eval_hash)
  show ?thesis
    unfolding seeded_dark_background [OF a] by (simp add: eval_hslToHex)
qed

lemma path_9:
  "activeBackground (generateTitleBarColorsFromSeed (utf16_of ''/Users/dev/project-9'') Dark) = ''#228612''"
proof -
  have a: "hashStringToHue (utf16_of ''/Users/dev/project-9'') = 112"
    "hashStringToFloat (utf16_of ''/Users/dev/project-9'') 1 = 8609 / 10000"
    "hashStringToFloat (utf16_of ''/Users/dev/project-9'') 2 = 6370 / 10000"
    by (simp_all add: eval_hash)
  show ?thesis
    unfolding seeded_dark_background [OF a] by (simp add: eval_hslToHex)
qed

lemma path_10:
  "activeBackground (generateTitleBarColorsFromSeed (utf16_of ''/Users/dev/project-10'') Dark) = ''#822f2f''"
proof -
  have a: "hashStringToHue (utf16_of ''/Users/dev/project-10'') = 0"
    "hashStringToFloat (utf16_of ''/Users/dev/project-10'') 1 = 4185 / 10000"
    "hashStringToFloat (utf16_of ''/Users/dev/project-10'') 2 = 8106 / 10000"
    by (simp_all add: eval_hash)
  show ?thesis
    unfolding seeded_dark_background [OF a] by (simp add: eval_hslToHex)
qed

lemma path_11:
  "activeBackground (generateTitleBarColorsFromSeed (utf16_of ''/Users/dev/project-11'') Dark) = ''#82302f''"
proof -
  have a: "hashStringToHue (utf16_of ''/Users/dev/project-11'') = 1"
    "hashStringToFloat (utf16_of ''/Users/dev/project-11'') 1 = 4186 / 10000"
    "hashStringToFloat (utf16_of ''/Users/dev/project-11'') 2 = 8107 / 10000"
    by (simp_all add: eval_hash)
  show ?thesis
    unfolding seeded_dark_background [OF a] by (simp add: eval_hslToHex)
qed

lemma path_12:
  "activeBackground (generateTitleBarColorsFromSeed (utf16_of ''/Users/dev/project-12'') Dark) = ''#82312f''"
proof -
  have a: "hashStringToHue (utf16_of ''/Users/dev/project-12'') = 2"
    "hashStringToFloat (utf16_of ''/Users/dev/project-12'') 1 = 4187 / 10000"
    "hashStringToFloat (utf16_of ''/Users/dev/project-12'') 2 = 8108 / 10000"
    by (simp_all add: eval_hash)
  show ?thesis
    unfolding seeded_dark_background [OF a] by (simp add: eval_hslToHex)
qed

lemma path_13:
  "activeBackground (generateTitleBarColorsFromSeed (utf16_of ''/Users/dev/project-13'') Dark) = ''#82332f''"
proof -
  have a: "hashStringToHue (utf16_of ''/Users/dev/project-13'') = 3"
    "hashStringToFloat (utf16_of ''/Users/dev/project-13'') 1 = 4188 / 10000"
    "hashStringToFloat (utf16_of ''/Users/dev/project-13'') 2 = 8109 / 10000"
    by (simp_all add: eval_hash)
  show ?thesis
    unfolding seeded_dark_background [OF a] by (simp add: eval_hslToHex)
qed

lemma path_14:
  "activeBackground (generateTitleBarColorsFromSeed (utf16_of ''/Users/dev/project-14'') Dark) = ''#82342f''"
proof -
  have a: "hashStringToHue (utf16_of ''/Users/dev/project-14'') = 4"
    "hashStringToFloat (utf16_of ''/Users/dev/project-14'') 1 = 4189 / 10000"
    "hashStringToFloat (utf16_of ''/Users/dev/project-14'') 2 = 8110 / 10000"
    by (simp_all add: eval_hash)
  show ?thesis
    unfolding seeded_dark_background [OF a] by (simp add: eval_hslToHex)
qed

lemma path_15:
  "activeBackground (generateTitleBarColorsFromSeed (utf16_of ''/Users/dev/project-15'') Dark) = ''#82362f''"
proof -
  have a: "hashStringToHue (utf16_of ''/Users/dev/project-15'') = 5"
    "hashStringToFloat (utf16_of ''/Users/dev/project-15'') 1 = 4190 / 10000"
    "hashStringToFloat (utf16_of ''/Users/dev/project-15'') 2 = 8111 / 10000"
    by (simp_all add: eval_hash)
  show ?thesis
    unfolding seeded_dark_background [OF a] by (simp add: eval_hslToHex)
qed

lemma path_16:
  "activeBackground (generateTitleBarColorsFromSeed (utf16_of ''/Users/dev/project-16'') Dark) = ''#82372f''"
proof -
  have a: "hashStringToHue (utf16_of ''/Users/dev/project-16'') = 6"
    "hashStringToFloat (utf16_of ''/Users/dev/project-16'') 1 = 4191 / 10000"
    "hashStringToFloat (utf16_of ''/Users/dev/project-16'') 2 = 8112 / 10000"
    by (simp_all add: eval_hash)
  show ?thesis
    unfolding seeded_dark_background [OF a] by (simp add: eval_hslToHex)
qed

lemma path_17:
  "activeBackground (generateTitleBarColorsFromSeed (utf16_of ''/Users/dev/project-17'') Dark) = ''#82382f''"
proof -
  have a: "hashStringToHue (utf16_of ''/Users/dev/project-17'') = 7"
    "hashStringToFloat (utf16_of ''/Users/dev/project-17'') 1 = 4192 / 10000"
    "hashStringToFloat (utf16_of ''/Users/dev/project-17'') 2 = 8113 / 10000"
    by (simp_all add: eval_hash)
  show ?thesis
    unfolding seeded_dark_background [OF a] by (simp add: eval_hslToHex)
qed

lemma path_18:
  "activeBackground (generateTitleBarColorsFromSeed (utf16_of ''/Users/dev/project-18'') Dark) = ''#823a2f''"
proof -
  have a: "hashStringToHue (utf16_of ''/Users/dev/project-18'') = 8"
    "hashStringToFloat (utf16_of ''/Users/dev/project-18'') 1 = 4193 / 10000"
    "hashStringToFloat (utf16_of ''/Users/dev/project-18'') 2 = 8114 / 10000"
    by (simp_all add: eval_hash)
  show ?thesis
    unfolding seeded_dark_background [OF a] by (simp add: eval_hslToHex)
qed

lemma path_19:
  "activeBackground (generateTitleBarColorsFromSeed (utf16_of ''/Users/dev/project-19'') Dark) = ''#823b2f''"
proof -
  have a: "hashStringToHue (utf16_of ''/Users/dev/project-19'') = 9"
    "hashStringToFloat (utf16_of ''/Users/dev/project-19'') 1 = 4194 / 10000"
    "hashStringToFloat (utf16_of ''/Users/dev/project-19'') 2 = 8115 / 10000"
    by (simp_all add: eval_hash)
  show ?thesis
    unfolding seeded_dark_background [OF a] by (simp add: eval_hslToHex)
qed

lemma testBackgrounds_eq:
  "testBackgrounds =
     [''#338612'', ''#318612'', ''#2f8612'', ''#2d8612'', ''#2b8612'',
      ''#298612'', ''#278612'', ''#268612'', ''#248612'', ''#228612'',
      ''#822f2f'', ''#82302f'', ''#82312f'', ''#82332f'', ''#82342f'',
      ''#82362f'', ''#82372f'', ''#82382f'', ''#823a2f'', ''#823b2f'']"
  unfolding testBackgrounds_def testPaths_eq
  by (simp add: path_0 path_1 path_2 path_3 path_4 path_5 path_6 path_7 path_8 path_9 path_10 path_11 path_12 path_13 path_14 path_15 path_16 path_17 path_18 path_19)

lemma testPaths_distinct: "length testPaths = 20 \<and> distinct testPaths"
  unfolding testPaths_eq by (simp add: utf16_of_def)

lemma testBackgrounds_distinct: "distinct testBackgrounds"
  unfolding testBackgrounds_eq by simp

lemma testBackgrounds_card: "card (set testBackgrounds) = 20"
proof -
  have "card (set testBackgrounds) = length testBackgrounds"
    using testBackgrounds_distinct by (rule distinct_card)
  also have "\<dots> = 20" by (simp add: testBackgrounds_def testPaths_distinct)
  finally show ?thesis .
qed

lemma generateTitleBarColorsFromSeed_cong:
  assumes "hashStringToHue s1 = hashStringToHue s2"
    and "hashStringToFloat s1 1 = hashStringToFloat s2 1"
    and "hashStringToFloat s1 2 = hashStringToFloat s2 2"
  shows "generateTitleBarColorsFromSeed s1 t = generateTitleBarColorsFromSeed s2 t"
  using assms by (simp add: generateTitleBarColorsFromSeed_def)

lemma seed_hsl_unfold:
  "generateTitleBarColorsFromSeed seed theme =
     titleBarColorsFromHsl
       \<lparr>h = of_int (hashStringToHue seed),
        s = (case theme of Dark \<Rightarrow> 20 + hashStringToFloat seed 1 * 65
               | Light \<Rightarrow> 25 + hashStringToFloat seed 1 * 60
               | HighContrast \<Rightarrow> 40 + hashStringToFloat seed 1 * 50),
        l = (case theme of Dark \<Rightarrow> 12 + hashStringToFloat seed 2 * 28
               | Light \<Rightarrow> 65 + hashStringToFloat seed 2 * 25
               | HighContrast \<Rightarrow> 10 + hashStringToFloat seed 2 * 18)\<rparr> theme"
  by (cases theme) (simp_all add: generateTitleBarColorsFromSeed_def Let_def)

lemma sin_341: "sin (341 / 360 * pi * 2) < 0"
proof -
  have "sin (341 / 360 * pi * 2) = - sin (19 / 180 * pi)"
  proof -
    have "341 / 360 * pi * 2 = - (19 / 180 * pi) + 2 * pi" by simp
    then have "sin (341 / 360 * pi * 2) = sin (- (19 / 180 * pi) + 2 * pi)" by simp
    also have "\<dots> = sin (- (19 / 180 * pi))" by (rule sin_periodic)
    finally show ?thesis by simp
  qed
  moreover have "0 < sin (19 / 180 * pi)"
    by (rule sin_gt_zero) (simp_all add: pi_gt_zero)
  ultimately show ?thesis by simp
qed

lemma empty_seed_hashes:
  "hashStringToHue [] = 341" "hashStringToFloat [] 1 = 5382 / 10000" "hashStringToFloat [] 2 = 5383 / 10000"
  by (simp_all add: hashStringToHue_def hashStringToFloat_def js_rem_def)

lemma hue_341: "js_fmod (js_fmod 341 360 + 360) 360 = 341"
  by (simp add: js_fmod_def trunc_def)

lemma red_of_wave_341:
  fixes w :: real
  assumes "- 1 \<le> w" "w \<le> 0"
  shows "r (hslToRgb \<lparr>h = 341, s = 40 + w * 20, l = 22 + w * 8\<rparr>) \<le> 79"
proof -
  define lN where "lN = (22 + w * 8) / 100"
  define sN where "sN = (40 + w * 20) / 100"
  have lb: "0 \<le> lN" "lN \<le> 22 / 100" and sb: "0 \<le> sN" "sN \<le> 40 / 100"
    using assms by (simp_all add: lN_def sN_def)
  have ab: "\<bar>2 * lN - 1\<bar> = 1 - 2 * lN" using lb by simp
  have "lN * sN \<le> (22 / 100) * (40 / 100)"
    using lb sb by (intro mult_mono) simp_all
  then have ub: "((1 - \<bar>2 * lN - 1\<bar>) * sN + (lN - (1 - \<bar>2 * lN - 1\<bar>) * sN / 2)) * 255 < 79"
    unfolding ab using lb by (simp add: algebra_simps)
  have "r (hslToRgb \<lparr>h = 341, s = 40 + w * 20, l = 22 + w * 8\<rparr>)
      = Math_round (((1 - \<bar>2 * lN - 1\<bar>) * sN + (lN - (1 - \<bar>2 * lN - 1\<bar>) * sN / 2)) * 255)"
    unfolding hslToRgb_def Let_def lN_def sN_def by (simp add: hue_341)
  also have "\<dots> \<le> 79"
    unfolding Math_round_def using ub by (simp add: floor_le_iff)
  finally show ?thesis .
qed

lemma seeded_not_wave:
  "generateTitleBarColorsFromSeed [] Dark
     \<noteq> generateTitleBarColorsFromHue (of_int (hashStringToHue [])) Dark"
proof
  assume eq: "generateTitleBarColorsFromSeed [] Dark
     = generateTitleBarColorsFromHue (of_int (hashStringToHue [])) Dark"
  define w where "w = sin (341 / 360 * pi * 2)"
  have wb: "- 1 \<le> w" "w \<le> 0"
    using sin_341 by (simp_all add: w_def)
  have wave: "hslFromHue (of_int (hashStringToHue [])) Dark = \<lparr>h = 341, s = 40 + w * 20, l = 22 + w * 8\<rparr>"
    by (simp add: hslFromHue_def Let_def empty_seed_hashes hue_341 w_def)
  have seeded: "hslToRgb \<lparr>h = 341, s = 54983 / 1000, l = 67681 / 2500\<rparr> = \<lparr>r = 107, g = 31, b = 55\<rparr>"
    by (simp add: hslToRgb_def js_fmod_def trunc_def Math_round_def Let_def)
  have i1: "inByte \<lparr>r = 107, g = 31, b = 55\<rparr>" by (simp add: inByte_def)
  have i2: "inByte (hslToRgb \<lparr>h = 341, s = 40 + w * 20, l = 22 + w * 8\<rparr>)"
    using wb by (intro hslToRgb_inByte) simp_all
  have "activeBackground (generateTitleBarColorsFromSeed [] Dark)
      = activeBackground (generateTitleBarColorsFromHue (of_int (hashStringToHue [])) Dark)"
    using eq by simp
  then have "rgbToHex \<lparr>r = 107, g = 31, b = 55\<rparr>
      = rgbToHex (hslToRgb \<lparr>h = 341, s = 40 + w * 20, l = 22 + w * 8\<rparr>)"
    unfolding generateTitleBarColorsFromHue_def wave
    by (simp add: generateTitleBarColorsFromSeed_def empty_seed_hashes titleBarColorsFromHsl_def
        Let_def hslToHex_def seeded)
  then have "\<lparr>r = 107, g = 31, b = 55\<rparr> = hslToRgb \<lparr>h = 341, s = 40 + w * 20, l = 22 + w * 8\<rparr>"
    using i1 i2 by (intro rgbToHex_inj)
  then have "r (hslToRgb \<lparr>h = 341, s = 40 + w * 20, l = 22 + w * 8\<rparr>) = 107"
    by (metis RGB.select_convs(1))
  then show False
    using red_of_wave_341 [OF wb] by simp
qed

section \<open>The settings store: properties\<close>

lemma delete_title_bar_keys:
  "foldl (\<lambda>m key. AList.delete key m) current TITLE_BAR_KEYS
     = filter (\<lambda>(k, v). k \<notin> set TITLE_BAR_KEYS) current"
  unfolding TITLE_BAR_KEYS_def
  by (induction current) (auto simp add: AList.delete_eq)

lemma map_of_filter_keys:
  "map_of (filter (\<lambda>(k, v). k \<notin> K) kvs) k = (if k \<in> K then None else map_of kvs k)"
  by (induction kvs) auto

lemma resetColors_no_workspace:
  "\<not> hasWorkspace st \<Longrightarrow> resetColors st = st"
  by (simp add: resetColors_def)

lemma resetColors_clears_emptied_map:
  "colorCustomizations (resetColors \<lparr>workspaceFolders = Some [''file:///w''],
       colorCustomizations = Some [(''titleBar.border'', ''#112233'')],
       currentColors = None\<rparr>) = None"
  by (simp add: resetColors_def hasWorkspace_def TITLE_BAR_KEYS_def AList.delete_eq)

section \<open>The generators stay within the tuned ranges\<close>

lemma generateAppealingHsl_inTunedRange:
  assumes "0 \<le> u2" "u2 < 1" "0 \<le> u3" "u3 < 1"
  shows "inTunedRange theme (generateAppealingHsl theme u1 u2 u3)"
  using assms
  by (cases theme)
    (simp_all add: inTunedRange_def generateAppealingHsl_def spec_saturationRange_def
      spec_lightnessRange_def)

lemma spec_seededHsl_inTunedRange:
  "inTunedRange theme (spec_seededHsl seed theme)"
proof -
  have a: "0 \<le> hashStringToFloat seed 1 \<and> hashStringToFloat seed 1 < 1"
    by (rule hashStringToFloat_range) simp
  have c: "0 \<le> hashStringToFloat seed 2 \<and> hashStringToFloat seed 2 < 1"
    by (rule hashStringToFloat_range) simp
  show ?thesis
    using a c
    by (cases theme)
      (simp_all add: inTunedRange_def spec_seededHsl_def spec_mapLinear_def
        spec_saturationRange_def spec_lightnessRange_def)
qed

section \<open>Examples of the test suite\<close>

text \<open>
  The real power is bounded by integer powers: for \<open>0 < x \<le> 1\<close>,
  \<open>x ^ 3 \<le> x powr 2.4 \<le> x ^ 2\<close>. The bounds decide the foreground of the two
  backgrounds that the test suite tries.
\<close>

lemma linearize_upper:
  assumes "0.03928 * 255 < c" "c \<le> 255"
  shows "linearize c \<le> ((c / 255 + 0.055) / 1.055)\<^sup>2"
proof -
  define x where "x = (c / 255 + 0.055) / 1.055"
  have x: "0 < x" "x \<le> 1" using assms by (simp_all add: x_def)
  have "x powr 2.4 \<le> x powr 2"
    using x by (intro powr_mono') simp_all
  also have "x powr 2 = x\<^sup>2" using x by simp
  finally show ?thesis
    using assms by (simp add: linearize_def Let_def x_def)
qed

lemma linearize_lower:
  assumes "0.03928 * 255 < c" "c \<le> 255"
  shows "((c / 255 + 0.055) / 1.055) ^ 3 \<le> linearize c"
proof -
  define x where "x = (c / 255 + 0.055) / 1.055"
  have x: "0 < x" "x \<le> 1" using assms by (simp_all add: x_def)
  have "x powr 3 \<le> x powr 2.4"
    using x by (intro powr_mono') simp_all
  moreover have "x powr 3 = x ^ 3" using x by simp
  ultimately show ?thesis
    using assms by (simp add: linearize_def Let_def x_def)
qed

lemma test_chooseForeground_dark: "chooseForeground ''#1a1a2e'' = ''#ffffff''"
proof -
  have p: "definedRgb (hexToRgb ''#1a1a2e'') = Some \<lparr>r = 26, g = 26, b = 46\<rparr>"
    by (simp add: hexToRgb_def parseInt16_def definedRgb_def hexValue_def isWhiteSpace_def Let_def)
  have u26: "linearize 26 \<le> 0.0222" using linearize_upper [of 26] by (simp add: power2_eq_square)
  have u46: "linearize 46 \<le> 0.0498" using linearize_upper [of 46] by (simp add: power2_eq_square)
  have n26: "0 \<le> linearize 26" and n46: "0 \<le> linearize 46" by (simp_all add: linearize_nonneg)
  define lum where "lum = relativeLuminance \<lparr>r = 26, g = 26, b = 46\<rparr>"
  have lum: "0 \<le> lum" "lum \<le> 0.03"
    using u26 u46 n26 n46 by (simp_all add: lum_def relativeLuminance_def)
  have w: "contrastRatio \<lparr>r = 26, g = 26, b = 46\<rparr> white = 1.05 / (lum + 0.05)"
    using lum by (simp add: contrastRatio_def Let_def relativeLuminance_white lum_def [symmetric] max_def min_def)
  have k: "contrastRatio \<lparr>r = 26, g = 26, b = 46\<rparr> black = (lum + 0.05) / 0.05"
    using lum by (simp add: contrastRatio_def Let_def relativeLuminance_black lum_def [symmetric] max_def min_def)
  have "(lum + 0.05) / 0.05 \<le> 2" using lum by simp
  moreover have "2 \<le> 1.05 / (lum + 0.05)" using lum by (simp add: le_divide_eq)
  ultimately have "contrastRatio \<lparr>r = 26, g = 26, b = 46\<rparr> black
      \<le> contrastRatio \<lparr>r = 26, g = 26, b = 46\<rparr> white"
    unfolding w k by linarith
  then show ?thesis
    by (simp add: chooseForeground_def p)
qed

lemma test_chooseForeground_light: "chooseForeground ''#f0f0f0'' = ''#000000''"
proof -
  have p: "definedRgb (hexToRgb ''#f0f0f0'') = Some \<lparr>r = 240, g = 240, b = 240\<rparr>"
    by (simp add: hexToRgb_def parseInt16_def definedRgb_def hexValue_def isWhiteSpace_def Let_def)
  have l240: "0.8 \<le> linearize 240" using linearize_lower [of 240] by (simp add: power3_eq_cube)
  have u240: "linearize 240 \<le> 1" using linearize_upper [of 240] by (simp add: power2_eq_square)
  define lum where "lum = relativeLuminance \<lparr>r = 240, g = 240, b = 240\<rparr>"
  have lum: "0.8 \<le> lum" "lum \<le> 1"
    using l240 u240 by (simp_all add: lum_def relativeLuminance_def)
  have w: "contrastRatio \<lparr>r = 240, g = 240, b = 240\<rparr> white = 1.05 / (lum + 0.05)"
    using lum by (simp add: contrastRatio_def Let_def relativeLuminance_white lum_def [symmetric] max_def min_def)
  have k: "contrastRatio \<lparr>r = 240, g = 240, b = 240\<rparr> black = (lum + 0.05) / 0.05"
    using lum by (simp add: contrastRatio_def Let_def relativeLuminance_black lum_def [symmetric] max_def min_def)
  have "2 \<le> (lum + 0.05) / 0.05" using lum by simp
  moreover have "1.05 / (lum + 0.05) < 2" using lum by (simp add: divide_less_eq)
  ultimately have "\<not> contrastRatio \<lparr>r = 240, g = 240, b = 240\<rparr> black
      \<le> contrastRatio \<lparr>r = 240, g = 240, b = 240\<rparr> white"
    unfolding w k by linarith
  then show ?thesis
    by (simp add: chooseForeground_def p)
qed

lemma test_hslToRgb:
  "hslToRgb \<lparr>h = 0, s = 100, l = 50\<rparr> = \<lparr>r = 255, g = 0, b = 0\<rparr>"
  "hslToRgb \<lparr>h = 120, s = 100, l = 50\<rparr> = \<lparr>r = 0, g = 255, b = 0\<rparr>"
  "hslToRgb \<lparr>h = 240, s = 100, l = 50\<rparr> = \<lparr>r = 0, g = 0, b = 255\<rparr>"
  "hslToRgb \<lparr>h = 60, s = 100, l = 50\<rparr> = \<lparr>r = 255, g = 255, b = 0\<rparr>"
  "hslToRgb \<lparr>h = 180, s = 100, l = 50\<rparr> = \<lparr>r = 0, g = 255, b = 255\<rparr>"
  "hslToRgb \<lparr>h = 300, s = 100, l = 50\<rparr> = \<lparr>r = 255, g = 0, b = 255\<rparr>"
  "hslToRgb \<lparr>h = 0, s = 0, l = 0\<rparr> = \<lparr>r = 0, g = 0, b = 0\<rparr>"
  "hslToRgb \<lparr>h = 0, s = 0, l = 100\<rparr> = \<lparr>r = 255, g = 255, b = 255\<rparr>"
  "hslToRgb \<lparr>h = 0, s = 0, l = 50\<rparr> = \<lparr>r = 128, g = 128, b = 128\<rparr>"
  "hslToRgb \<lparr>h = 360, s = 100, l = 50\<rparr> = hslToRgb \<lparr>h = 0, s = 100, l = 50\<rparr>"
  by (simp_all add: hslToRgb_def js_fmod_def trunc_def Math_round_def Let_def)

lemma test_hex:
  "rgbToHex \<lparr>r = 0, g = 0, b = 0\<rparr> = ''#000000''"
  "rgbToHex \<lparr>r = 255, g = 255, b = 255\<rparr> = ''#ffffff''"
  "rgbToHex \<lparr>r = 171, g = 205, b = 239\<rparr> = ''#abcdef''"
  "hexToRgb ''#abcdef'' = \<lparr>r = Some 171, g = Some 205, b = Some 239\<rparr>"
  "hexToRgb ''abcdef'' = \<lparr>r = Some 171, g = Some 205, b = Some 239\<rparr>"
  "hslToHex \<lparr>h = 0, s = 100, l = 50\<rparr> = ''#ff0000''"
  by (simp_all add: eval_hslToHex hexToRgb_def parseInt16_def hexValue_def isWhiteSpace_def)

lemma test_negative_hue:
  "hslToRgb \<lparr>h = - 60, s = 100, l = 50\<rparr> = hslToRgb \<lparr>h = 300, s = 100, l = 50\<rparr>"
  by (simp add: hslToRgb_def js_fmod_def trunc_def Math_round_def Let_def ceiling_def)

section \<open>The claims\<close>

text \<open>
  Claim C1. For every HSL value whose saturation and lightness lie within the tuned
  ranges of the theme (Dark: s 20-85, l 12-40; Light: s 25-85, l 65-90; HighContrast:
  s 40-90, l 10-28) and any hue, the foreground that \<^verbatim>\<open>chooseForeground\<close> picks for the
  background \<^verbatim>\<open>hslToHex(hsl)\<close> has a contrast ratio of at least 4.5 against that
  background. The ratio is measured as the test suite does: both hex strings are parsed
  back with \<^verbatim>\<open>hexToRgb\<close>, neither yields \<^verbatim>\<open>NaN\<close>, and \<^verbatim>\<open>contrastRatio\<close> is taken.
\<close>

theorem tuned_background_contrast:
  assumes "inTunedRange theme hsl"
  shows "\<exists>ratio. hexContrast (hslToHex hsl) (chooseForeground (hslToHex hsl)) = Some ratio
           \<and> 4.5 \<le> ratio"
proof -
  have p: "0 \<le> s hsl" "s hsl \<le> 100" "0 \<le> l hsl" "l hsl \<le> 100"
    using inTunedRange_percent [OF assms] by simp_all
  have i: "inByte (hslToRgb hsl)" using p by (rule hslToRgb_inByte)
  obtain fg where fg: "definedRgb (hexToRgb (chooseForeground (rgbToHex (hslToRgb hsl)))) = Some fg"
    and c: "4.5 \<le> contrastRatio (hslToRgb hsl) fg"
    using chosen_contrast [OF i] by blast
  have "hexContrast (hslToHex hsl) (chooseForeground (hslToHex hsl)) = Some (contrastRatio (hslToRgb hsl) fg)"
    using fg by (simp add: hexContrast_def hslToHex_def definedRgb_rgbToHex [OF i])
  then show ?thesis using c by simp
qed

theorem tuned_background_contrast_witness:
  "inTunedRange Dark \<lparr>h = 220, s = 60, l = 30\<rparr>
   \<and> (\<exists>ratio. hexContrast (hslToHex \<lparr>h = 220, s = 60, l = 30\<rparr>)
          (chooseForeground (hslToHex \<lparr>h = 220, s = 60, l = 30\<rparr>)) = Some ratio \<and> 4.5 \<le> ratio)"
proof -
  have i: "inTunedRange Dark \<lparr>h = 220, s = 60, l = 30\<rparr>"
    by (simp add: inTunedRange_def spec_saturationRange_def spec_lightnessRange_def)
  show ?thesis using i tuned_background_contrast [OF i] by simp
qed

text \<open>
  Claim C2, as stated: two calls with the same seed and theme return the same colours, and
  two distinct seeds return different colours. The second half fails: the hash of a
  string of two code units is \<open>33 * (33 * start + c0) + c1\<close> modulo \<open>2^32\<close>, so
  \<^verbatim>\<open>"ab"\<close> (97, 98) and \<^verbatim>\<open>"bA"\<close> (98, 65) have the same hash from every start value,
  and with it the same hue, the same two floats and the same five colours.
\<close>

theorem distinct_seeds_same_colors:
  "utf16_of ''ab'' \<noteq> utf16_of ''bA''
   \<and> generateTitleBarColorsFromSeed (utf16_of ''ab'') Dark
       = generateTitleBarColorsFromSeed (utf16_of ''bA'') Dark"
  by (simp add: generateTitleBarColorsFromSeed_def ab_hashes) (simp add: utf16_of_def)

text \<open>
  Claim C2, amended. For every seed and theme, two calls of
  \<^verbatim>\<open>generateTitleBarColorsFromSeed\<close> return the same colours: the function reads nothing
  but its two arguments, and the seed enters only through \<^verbatim>\<open>hashStringToHue(seed)\<close>,
  \<^verbatim>\<open>hashStringToFloat(seed, 1)\<close> and \<^verbatim>\<open>hashStringToFloat(seed, 2)\<close>. Distinct seeds need
  not give different colours, but they do across the twenty distinct seeds
  \<^verbatim>\<open>/Users/dev/project-0\<close> to \<^verbatim>\<open>/Users/dev/project-19\<close> of the test suite: under Dark
  they produce at least 15 distinct active backgrounds, in fact 20.
\<close>

theorem generateTitleBarColorsFromSeed_deterministic_and_varied:
  "generateTitleBarColorsFromSeed s1 t = generateTitleBarColorsFromSeed s1 t
   \<and> (hashStringToHue s1 = hashStringToHue s2
        \<and> hashStringToFloat s1 1 = hashStringToFloat s2 1
        \<and> hashStringToFloat s1 2 = hashStringToFloat s2 2
      \<longrightarrow> generateTitleBarColorsFromSeed s1 t = generateTitleBarColorsFromSeed s2 t)
   \<and> length testPaths = 20 \<and> distinct testPaths
   \<and> 15 \<le> card (set testBackgrounds)
   \<and> distinct testBackgrounds"
proof -
  have "hashStringToHue s1 = hashStringToHue s2
        \<and> hashStringToFloat s1 1 = hashStringToFloat s2 1
        \<and> hashStringToFloat s1 2 = hashStringToFloat s2 2
      \<longrightarrow> generateTitleBarColorsFromSeed s1 t = generateTitleBarColorsFromSeed s2 t"
    using generateTitleBarColorsFromSeed_cong by blast
  moreover have "15 \<le> card (set testBackgrounds)"
    by (simp add: testBackgrounds_card)
  ultimately show ?thesis
    using testPaths_distinct testBackgrounds_distinct by blast
qed

theorem generateTitleBarColorsFromSeed_deterministic_and_varied_witness:
  "hashStringToHue (utf16_of ''ab'') = hashStringToHue (utf16_of ''bA'')
   \<and> hashStringToFloat (utf16_of ''ab'') 1 = hashStringToFloat (utf16_of ''bA'') 1
   \<and> hashStringToFloat (utf16_of ''ab'') 2 = hashStringToFloat (utf16_of ''bA'') 2
   \<and> generateTitleBarColorsFromSeed (utf16_of ''ab'') Light
       = generateTitleBarColorsFromSeed (utf16_of ''bA'') Light
   \<and> 15 \<le> card (set testBackgrounds)"
  using generateTitleBarColorsFromSeed_deterministic_and_varied
      [of "utf16_of ''ab''" Light "utf16_of ''bA''"]
    ab_hashes by blast

text \<open>
  Claim C3. For every seed and theme, \<^verbatim>\<open>generateTitleBarColorsFromSeed(seed, theme)\<close> is
  \<^verbatim>\<open>titleBarColorsFromHsl\<close> applied to the HSL of the specification: hue
  \<^verbatim>\<open>hashStringToHue(seed)\<close>, saturation and lightness from \<^verbatim>\<open>hashStringToFloat(seed, 1)\<close>
  and \<^verbatim>\<open>hashStringToFloat(seed, 2)\<close>, each mapped linearly onto the range of the theme
  table. It is not the colour set of the sinusoidal wave of \<^verbatim>\<open>hslFromHue\<close>: on the empty
  seed under Dark the two differ in the active background.
\<close>

theorem generateTitleBarColorsFromSeed_refines_spec:
  "generateTitleBarColorsFromSeed seed theme = titleBarColorsFromHsl (spec_seededHsl seed theme) theme
   \<and> generateTitleBarColorsFromSeed [] Dark
       \<noteq> generateTitleBarColorsFromHue (of_int (hashStringToHue [])) Dark"
proof -
  have "generateTitleBarColorsFromSeed seed theme
      = titleBarColorsFromHsl (spec_seededHsl seed theme) theme"
    unfolding seed_hsl_unfold
    by (cases theme)
      (simp_all add: spec_seededHsl_def spec_mapLinear_def spec_saturationRange_def
        spec_lightnessRange_def)
  then show ?thesis
    using seeded_not_wave by simp
qed

theorem generateTitleBarColorsFromSeed_refines_spec_witness:
  "generateTitleBarColorsFromSeed (utf16_of ''project-alpha'') Light
     = titleBarColorsFromHsl (spec_seededHsl (utf16_of ''project-alpha'') Light) Light
   \<and> spec_seededHsl (utf16_of ''project-alpha'') Light = \<lparr>h = 343, s = 75.304, l = 72.9625\<rparr>"
proof -
  have "spec_seededHsl (utf16_of ''project-alpha'') Light = \<lparr>h = 343, s = 75.304, l = 72.9625\<rparr>"
    by (simp add: spec_seededHsl_def spec_mapLinear_def spec_saturationRange_def
        spec_lightnessRange_def alpha_hashes)
  then show ?thesis
    using generateTitleBarColorsFromSeed_refines_spec [of "utf16_of ''project-alpha''" Light]
    by simp
qed

text \<open>
  Claim C4, as stated: for every real \<open>h\<close>, \<open>s\<close>, \<open>l\<close>, with no range condition,
  \<^verbatim>\<open>hslToRgb\<close> returns three integer channels within \<open>[0, 255]\<close>. The function
  normalises the hue but neither clamps nor checks saturation and lightness: a
  lightness of 200 with saturation 0 gives 510 in every channel.
\<close>

theorem hslToRgb_out_of_range:
  "hslToRgb \<lparr>h = 0, s = 0, l = 200\<rparr> = \<lparr>r = 510, g = 510, b = 510\<rparr>
   \<and> \<not> inByte (hslToRgb \<lparr>h = 0, s = 0, l = 200\<rparr>)"
  by (simp add: hslToRgb_def js_fmod_def trunc_def Math_round_def Let_def inByte_def)

text \<open>
  Claim C4, amended. For every real hue, and saturation and lightness within
  \<open>[0, 100]\<close> as the type \<^verbatim>\<open>HSL\<close> documents them, \<^verbatim>\<open>hslToRgb\<close> returns three integer
  channels each within \<open>[0, 255]\<close>; no step of it can fail.
\<close>

theorem hslToRgb_percent_in_byte:
  assumes "0 \<le> s hsl" "s hsl \<le> 100" "0 \<le> l hsl" "l hsl \<le> 100"
  shows "inByte (hslToRgb hsl)"
  using assms by (rule hslToRgb_inByte)

theorem hslToRgb_percent_in_byte_witness:
  "inByte (hslToRgb \<lparr>h = 300, s = 100, l = 50\<rparr>)
   \<and> hslToRgb \<lparr>h = 300, s = 100, l = 50\<rparr> = \<lparr>r = 255, g = 0, b = 255\<rparr>"
proof -
  have "inByte (hslToRgb \<lparr>h = 300, s = 100, l = 50\<rparr>)"
    using hslToRgb_percent_in_byte [of "\<lparr>h = 300, s = 100, l = 50\<rparr>"] by simp
  moreover have "hslToRgb \<lparr>h = 300, s = 100, l = 50\<rparr> = \<lparr>r = 255, g = 0, b = 255\<rparr>"
    by (simp add: hslToRgb_def js_fmod_def trunc_def Math_round_def Let_def)
  ultimately show ?thesis by simp
qed

text \<open>
  Claim C5. For every base HSL and every theme, the colour set of
  \<^verbatim>\<open>titleBarColorsFromHsl\<close> has the active foreground \<^verbatim>\<open>#ffffff\<close> or \<^verbatim>\<open>#000000\<close>,
  and its inactive foreground is the active foreground followed by the two hexadecimal
  digits \<^verbatim>\<open>cc\<close>: eight hexadecimal digits after \<^verbatim>\<open>#\<close>. This holds on HSL values outside
  the documented ranges too, where the background can be malformed hex.
\<close>

theorem titleBarColors_foregrounds:
  "(activeForeground (titleBarColorsFromHsl hsl theme) = ''#ffffff''
      \<or> activeForeground (titleBarColorsFromHsl hsl theme) = ''#000000'')
   \<and> inactiveForeground (titleBarColorsFromHsl hsl theme)
       = activeForeground (titleBarColorsFromHsl hsl theme) @ ''cc''
   \<and> isHex8 (inactiveForeground (titleBarColorsFromHsl hsl theme))"
proof -
  have a: "activeForeground (titleBarColorsFromHsl hsl theme) = chooseForeground (hslToHex hsl)"
    by (simp add: titleBarColorsFromHsl_def Let_def)
  have i: "inactiveForeground (titleBarColorsFromHsl hsl theme) = chooseForeground (hslToHex hsl) @ ''cc''"
    by (simp add: titleBarColorsFromHsl_def Let_def deriveInactiveForeground_def)
  have "isHex6 (chooseForeground (hslToHex hsl))"
    using chooseForeground_cases [of "hslToHex hsl"] isHex6_white isHex6_black by auto
  then have "isHex8 (chooseForeground (hslToHex hsl) @ ''cc'')"
    by (rule isHex8_suffix_cc)
  then show ?thesis
    unfolding a i using chooseForeground_cases [of "hslToHex hsl"] by simp
qed

theorem titleBarColors_foregrounds_witness:
  "(activeForeground (titleBarColorsFromHsl \<lparr>h = 200, s = 50, l = 25\<rparr> Dark) = ''#ffffff''
      \<or> activeForeground (titleBarColorsFromHsl \<lparr>h = 200, s = 50, l = 25\<rparr> Dark) = ''#000000'')
   \<and> inactiveForeground (titleBarColorsFromHsl \<lparr>h = 200, s = 50, l = 25\<rparr> Dark)
       = activeForeground (titleBarColorsFromHsl \<lparr>h = 200, s = 50, l = 25\<rparr> Dark) @ ''cc''
   \<and> isHex8 (inactiveForeground (titleBarColorsFromHsl \<lparr>h = 200, s = 50, l = 25\<rparr> Dark))"
  by (rule titleBarColors_foregrounds)

text \<open>
  Claim C6. For every active foreground of the form \<^verbatim>\<open>#\<close> and six hexadecimal digits,
  \<^verbatim>\<open>deriveInactiveForeground\<close> returns that string followed by \<^verbatim>\<open>cc\<close>, the alpha of
  80 % opacity: \<^verbatim>\<open>#\<close> and eight hexadecimal digits.
\<close>

theorem deriveInactiveForeground_appends_cc:
  assumes "isHex6 fg"
  shows "deriveInactiveForeground fg = fg @ ''cc'' \<and> isHex8 (deriveInactiveForeground fg)"
  using isHex8_suffix_cc [OF assms] by (simp add: deriveInactiveForeground_def)

theorem deriveInactiveForeground_appends_cc_witness:
  "isHex6 ''#ffffff'' \<and> deriveInactiveForeground ''#ffffff'' = ''#ffffffcc''
   \<and> isHex8 (deriveInactiveForeground ''#ffffff'')"
proof -
  note t = deriveInactiveForeground_appends_cc [OF isHex6_white]
  have "deriveInactiveForeground ''#ffffff'' = ''#ffffffcc''"
    using t by simp
  moreover have "isHex8 (deriveInactiveForeground ''#ffffff'')"
    using t by (rule conjunct2)
  ultimately show ?thesis
    using isHex6_white by blast
qed

text \<open>
  Claim C7. \<^verbatim>\<open>hashStringToFloat\<close> is documented to return a value in \<open>[0, 1)\<close> for
  every input string, the empty one included, and every integer seed offset. On the empty
  string the loop body never runs, so the start value \<open>5381 + seed\<close> reaches the
  remainder without passing through \<^verbatim>\<open>>>> 0\<close>; with the seed offset \<open>-5382\<close> the start
  value is \<open>-1\<close>, the truncated remainder is \<open>-1\<close>, and the result is the negative
  number \<open>-1/10000\<close>.
\<close>

theorem hashStringToFloat_empty_negative_seed:
  "hashStringToFloat [] (- 5382) = - 1 / 10000 \<and> \<not> 0 \<le> hashStringToFloat [] (- 5382)"
  by (simp add: hashStringToFloat_def js_rem_def)

text \<open>
  Claim C8, as stated: for every HSL with \<open>h\<close> in \<open>[0, 360)\<close> and \<open>s\<close>, \<open>l\<close> in
  \<open>[0, 100]\<close>, under Dark and under Light, the border keeps the hue and its lightness is
  strictly below the active lightness. At lightness 0 the offset lightness is negative,
  \<^verbatim>\<open>clamp\<close> raises it to 0, and the border is as light as the active colour.
\<close>

theorem deriveBorderHsl_zero_lightness:
  "\<not> l (deriveBorderHsl \<lparr>h = 0, s = 50, l = 0\<rparr> Dark) < l \<lparr>h = 0, s = 50, l = 0\<rparr>"
  by (simp add: deriveBorderHsl_def clamp_def)

text \<open>
  Claim C8, amended. For every HSL and every theme, the border of \<^verbatim>\<open>deriveBorderHsl\<close>
  keeps the hue, and its lightness is strictly below the active lightness exactly when
  the active lightness is positive: for \<open>l\<close> in \<open>(0, 100]\<close> the border is darker, at
  \<open>l = 0\<close> both are 0.
\<close>

theorem deriveBorderHsl_darker:
  "h (deriveBorderHsl hsl theme) = h hsl
   \<and> (l (deriveBorderHsl hsl theme) < l hsl \<longleftrightarrow> 0 < l hsl)"
  by (auto simp add: deriveBorderHsl_def clamp_def min_def max_def)

theorem deriveBorderHsl_darker_witness:
  "h (deriveBorderHsl \<lparr>h = 220, s = 60, l = 78\<rparr> Light) = 220
   \<and> l (deriveBorderHsl \<lparr>h = 220, s = 60, l = 78\<rparr> Light) < 78
   \<and> l (deriveBorderHsl \<lparr>h = 220, s = 60, l = 78\<rparr> Light) = 66"
proof -
  have "l (deriveBorderHsl \<lparr>h = 220, s = 60, l = 78\<rparr> Light) = 66"
    by (simp add: deriveBorderHsl_def clamp_def)
  then show ?thesis
    using deriveBorderHsl_darker [of "\<lparr>h = 220, s = 60, l = 78\<rparr>" Light] by simp
qed

text \<open>
  Claim C9, as stated: for every colour-customization map, \<^verbatim>\<open>resetColors\<close> removes the
  five title-bar keys. The method returns at once when no workspace folder is open, and
  then writes nothing: a title-bar key of the setting stays.
\<close>

theorem resetColors_without_workspace_keeps_keys:
  "colorCustomizations
     (resetColors \<lparr>workspaceFolders = None,
        colorCustomizations = Some [(''titleBar.border'', ''#112233'')],
        currentColors = None\<rparr>)
   = Some [(''titleBar.border'', ''#112233'')]"
  by (simp add: resetColors_def hasWorkspace_def)

text \<open>
  Claim C9, amended. When a workspace folder is open, \<^verbatim>\<open>resetColors\<close> writes the
  colour-customization map without the five title-bar keys: the pairs of every other key
  stay as they were, in their order, each of the five keys is absent, and when no pair is
  left the setting is written as \<^verbatim>\<open>undefined\<close>, never as an empty map. When no workspace
  folder is open it changes nothing.
\<close>

theorem resetColors_removes_title_bar_keys:
  assumes "hasWorkspace st"
  shows "colorCustomizations (resetColors st) =
      (let current = (case colorCustomizations st of None \<Rightarrow> [] | Some m \<Rightarrow> m);
           kept = filter (\<lambda>(k, v). k \<notin> set TITLE_BAR_KEYS) current
       in if kept = [] then None else Some kept)
    \<and> (\<forall>k. map_of (case colorCustomizations (resetColors st) of None \<Rightarrow> [] | Some m \<Rightarrow> m) k
          = (if k \<in> set TITLE_BAR_KEYS then None
             else map_of (case colorCustomizations st of None \<Rightarrow> [] | Some m \<Rightarrow> m) k))
    \<and> colorCustomizations (resetColors st) \<noteq> Some []"
proof -
  define current where "current = (case colorCustomizations st of None \<Rightarrow> [] | Some m \<Rightarrow> m)"
  define kept where "kept = filter (\<lambda>(k, v). k \<notin> set TITLE_BAR_KEYS) current"
  have e: "colorCustomizations (resetColors st) = (if kept = [] then None else Some kept)"
    using assms
    by (simp add: resetColors_def Let_def delete_title_bar_keys current_def [symmetric]
        kept_def [symmetric])
  have m: "map_of (case colorCustomizations (resetColors st) of None \<Rightarrow> [] | Some m \<Rightarrow> m) k
      = (if k \<in> set TITLE_BAR_KEYS then None else map_of current k)" for k
  proof -
    have "(case colorCustomizations (resetColors st) of None \<Rightarrow> [] | Some m \<Rightarrow> m) = kept"
      unfolding e by simp
    then show ?thesis
      unfolding kept_def by (simp only: map_of_filter_keys)
  qed
  show ?thesis
    using e m unfolding current_def [symmetric] kept_def [symmetric] Let_def by simp
qed

theorem resetColors_removes_title_bar_keys_witness:
  "hasWorkspace \<lparr>workspaceFolders = Some [''file:///w''],
       colorCustomizations = Some [(''titleBar.border'', ''#112233''), (''editor.background'', ''#000000'')],
       currentColors = None\<rparr>
   \<and> colorCustomizations (resetColors \<lparr>workspaceFolders = Some [''file:///w''],
       colorCustomizations = Some [(''titleBar.border'', ''#112233''), (''editor.background'', ''#000000'')],
       currentColors = None\<rparr>) = Some [(''editor.background'', ''#000000'')]"
proof -
  define st :: "string Host" where "st = \<lparr>workspaceFolders = Some [''file:///w''],
       colorCustomizations = Some [(''titleBar.border'', ''#112233''), (''editor.background'', ''#000000'')],
       currentColors = None\<rparr>"
  have w: "hasWorkspace st" by (simp add: st_def hasWorkspace_def)
  have "colorCustomizations (resetColors st) = Some [(''editor.background'', ''#000000'')]"
    using resetColors_removes_title_bar_keys [OF w]
    by (simp add: st_def TITLE_BAR_KEYS_def)
  then show ?thesis using w unfolding st_def by simp
qed

text \<open>
  Claim C10. For every RGB background with all three channels integers in \<open>[0, 255]\<close>,
  formatted by \<^verbatim>\<open>rgbToHex\<close>, the foreground that \<^verbatim>\<open>chooseForeground\<close> returns parses to a
  colour whose contrast ratio against the background is at least 4.5: the ratios against
  white and against black multiply to 21, so the larger is never below 4.5.
\<close>

theorem chooseForeground_contrast_any_rgb:
  assumes "inByte rgb"
  shows "\<exists>fg. definedRgb (hexToRgb (chooseForeground (rgbToHex rgb))) = Some fg
           \<and> 4.5 \<le> contrastRatio rgb fg"
  using assms by (rule chosen_contrast)

theorem chooseForeground_contrast_any_rgb_witness:
  "inByte \<lparr>r = 128, g = 128, b = 128\<rparr>
   \<and> (\<exists>fg. definedRgb (hexToRgb (chooseForeground (rgbToHex \<lparr>r = 128, g = 128, b = 128\<rparr>))) = Some fg
           \<and> 4.5 \<le> contrastRatio \<lparr>r = 128, g = 128, b = 128\<rparr> fg)"
proof -
  have i: "inByte \<lparr>r = 128, g = 128, b = 128\<rparr>" by (simp add: inByte_def)
  show ?thesis using i chooseForeground_contrast_any_rgb [OF i] by simp
qed

end
